theory Spec2Isabelle
  imports Main "HOL-Library.Monad_Syntax"
begin

section \<open>The event model of \<open>fsm_cpp/qfsm.hpp\<close>\<close>

text \<open>
  \<open>QState\<close> and \<open>QSignal\<close> are both \<open>typedef int\<close>. The dispatcher only stores and
  compares them and the only arithmetic in the repository is \<open>Q_INIT_SIG + 1\<close>, so no
  overflow can occur and they are modelled as \<open>int\<close>.
\<close>

type_synonym QState = int
type_synonym QSignal = int

record QEvent =
  sig :: QSignal

text \<open>\<open>enum QEventResult\<close>: handlers return it converted to \<open>QState\<close>.\<close>

definition Q_EVENT_HANDLED :: QState where
  "Q_EVENT_HANDLED = 0"

definition Q_EVENT_IGNORED :: QState where
  "Q_EVENT_IGNORED = Q_EVENT_HANDLED + 1"

definition Q_EVENT_TRAN :: QState where
  "Q_EVENT_TRAN = Q_EVENT_IGNORED + 1"

text \<open>\<open>enum QReservedSignal\<close>.\<close>

definition Q_EMPTY_SIG :: QSignal where
  "Q_EMPTY_SIG = 0"

definition Q_ENTRY_SIG :: QSignal where
  "Q_ENTRY_SIG = Q_EMPTY_SIG + 1"

definition Q_EXIT_SIG :: QSignal where
  "Q_EXIT_SIG = Q_ENTRY_SIG + 1"

definition Q_INIT_SIG :: QSignal where
  "Q_INIT_SIG = Q_EXIT_SIG + 1"

text \<open>
  The static table \<open>QFsm<F>::m_reserved_ev[]\<close>. It is a constant: it takes neither the
  machine nor the class \<open>F\<close> as an argument.
\<close>

definition m_reserved_ev :: "QEvent list" where
  "m_reserved_ev =
     [\<lparr>sig = Q_EMPTY_SIG\<rparr>, \<lparr>sig = Q_ENTRY_SIG\<rparr>, \<lparr>sig = Q_EXIT_SIG\<rparr>, \<lparr>sig = Q_INIT_SIG\<rparr>]"

text \<open>\<open>m_reserved_ev[s]\<close> for a reserved signal \<open>s\<close>; every use in the source is in range.\<close>

definition reserved_ev :: "QSignal \<Rightarrow> QEvent" where
  "reserved_ev s = m_reserved_ev ! nat s"

section \<open>The machine\<close>

text \<open>
  A \<open>QFsm<F>\<close> object is the slot \<open>m_state\<close> together with whatever the derived class
  \<open>F\<close> adds (field \<open>derived\<close>). A value of type \<open>'h\<close> names a member function of \<open>F\<close>;
  \<open>m_state\<close> is a pointer to member, \<open>None\<close> being \<open>nullptr\<close>.
\<close>

record ('h, 'a) QFsm =
  m_state :: "'h option"
  derived :: 'a

text \<open>
  The member functions of \<open>F\<close> that can be state handlers: the function named \<open>h\<close>, given
  an event, runs on the object, may assign \<open>m_state\<close> and the fields of \<open>F\<close>, and returns
  a \<open>QState\<close>. Handlers are assumed to return (one that throws or loops is outside the
  dispatcher's contract) and not to call \<open>init\<close> or \<open>dispatch\<close> themselves.
\<close>

type_synonym ('h, 'a) handlers = "'h \<Rightarrow> QEvent \<Rightarrow> ('h, 'a) QFsm \<Rightarrow> QState \<times> ('h, 'a) QFsm"

text \<open>The three result macros, as the value and the updated object of the expression.\<close>

definition Q_HANDLED :: "('h, 'a) QFsm \<Rightarrow> QState \<times> ('h, 'a) QFsm" where
  "Q_HANDLED m = (Q_EVENT_HANDLED, m)"

definition Q_IGNORED :: "('h, 'a) QFsm \<Rightarrow> QState \<times> ('h, 'a) QFsm" where
  "Q_IGNORED m = (Q_EVENT_IGNORED, m)"

definition Q_TRAN :: "'h option \<Rightarrow> ('h, 'a) QFsm \<Rightarrow> QState \<times> ('h, 'a) QFsm" where
  "Q_TRAN target m = (Q_EVENT_TRAN, m\<lparr>m_state := target\<rparr>)"

text \<open>
  To observe call sequences the model keeps, beside the object, the list of handler
  invocations made so far: which handler, with which event, and what it returned. Handlers
  cannot touch this list.
\<close>

datatype 'h call = Call (target: 'h) (ev: QEvent) (ret: QState)

type_synonym ('h, 'a) world = "('h, 'a) QFsm \<times> 'h call list"

text \<open>
  \<open>(static_cast<F *>(this)->*p)(e)\<close>. Calling through a null pointer to member is
  undefined behaviour: the result \<open>None\<close>.
\<close>

definition invoke ::
  "('h, 'a) handlers \<Rightarrow> 'h option \<Rightarrow> QEvent \<Rightarrow> ('h, 'a) world \<Rightarrow> (QState \<times> ('h, 'a) world) option"
where
  "invoke F p e w =
     (case p of
        None \<Rightarrow> None
      | Some h \<Rightarrow> (case F h e (fst w) of (r, m') \<Rightarrow> Some (r, (m', snd w @ [Call h e r]))))"

text \<open>The constructor \<open>QFsm() : m_state(nullptr)\<close>, with \<open>F\<close>'s own part as given.\<close>

definition QFsm_new :: "'a \<Rightarrow> ('h, 'a) QFsm" where
  "QFsm_new d = \<lparr>m_state = None, derived = d\<rparr>"

text \<open>\<open>QFsm::init\<close>. Both calls go through \<open>m_state\<close>, read anew each time.\<close>

definition init :: "('h, 'a) handlers \<Rightarrow> 'h option \<Rightarrow> ('h, 'a) world \<Rightarrow> ('h, 'a) world option" where
  "init F init_state w =
     (let w0 = ((fst w)\<lparr>m_state := init_state\<rparr>, snd w) in
      do {
        (_, w1) \<leftarrow> invoke F (m_state (fst w0)) (reserved_ev Q_INIT_SIG) w0;
        (_, w2) \<leftarrow> invoke F (m_state (fst w1)) (reserved_ev Q_ENTRY_SIG) w1;
        Some w2
      })"

text \<open>
  \<open>QFsm::dispatch\<close>. The local \<open>s\<close> keeps the handler that was active on entry; the
  last call reads \<open>m_state\<close> again.
\<close>

definition dispatch :: "('h, 'a) handlers \<Rightarrow> QEvent \<Rightarrow> ('h, 'a) world \<Rightarrow> ('h, 'a) world option" where
  "dispatch F e w =
     (case m_state (fst w) of
        None \<Rightarrow> Some w
      | Some s \<Rightarrow>
          do {
            (r, w1) \<leftarrow> invoke F (Some s) e w;
            if r = Q_EVENT_TRAN then
              do {
                (_, w2) \<leftarrow> invoke F (Some s) (reserved_ev Q_EXIT_SIG) w1;
                (_, w3) \<leftarrow> invoke F (m_state (fst w2)) (reserved_ev Q_ENTRY_SIG) w2;
                Some w3
              }
            else Some w1
          })"

text \<open>Dispatching a sequence of events, one call of \<open>dispatch\<close> after the other.\<close>

fun dispatch_all :: "('h, 'a) handlers \<Rightarrow> QEvent list \<Rightarrow> ('h, 'a) world \<Rightarrow> ('h, 'a) world option" where
  "dispatch_all F [] w = Some w"
| "dispatch_all F (e # es) w = (case dispatch F e w of None \<Rightarrow> None | Some w' \<Rightarrow> dispatch_all F es w')"

section \<open>The example machine of \<open>fsm_cpp/main.cpp\<close>\<close>

definition Q_TIMEOUT_SIG :: QSignal where
  "Q_TIMEOUT_SIG = Q_INIT_SIG + 1"

text \<open>The two handlers \<open>&MyFSM::state_a\<close> and \<open>&MyFSM::state_b\<close> as pointer values.\<close>

datatype MyFSM_handler = ptr_state_a | ptr_state_b

text \<open>
  \<open>MyFSM\<close> has no fields; what it writes to \<open>std::cout\<close> is kept in \<open>derived\<close>.
  Every line the handlers write ends with a newline, which \<open>cout\<close> appends.
\<close>

type_synonym MyFSM = "(MyFSM_handler, string) QFsm"

definition cout :: "string \<Rightarrow> MyFSM \<Rightarrow> MyFSM" where
  "cout s m = m\<lparr>derived := derived m @ s @ [CHR 0x0A]\<rparr>"

definition state_a :: "QEvent \<Rightarrow> MyFSM \<Rightarrow> QState \<times> MyFSM" where
  "state_a e m =
     (if sig e = Q_ENTRY_SIG then Q_HANDLED (cout ''Entering A'' m)
      else if sig e = Q_EXIT_SIG then Q_HANDLED (cout ''Exiting A'' m)
      else if sig e = Q_TIMEOUT_SIG then Q_TRAN (Some ptr_state_b) (cout ''Timeout A'' m)
      else Q_HANDLED m)"

definition state_b :: "QEvent \<Rightarrow> MyFSM \<Rightarrow> QState \<times> MyFSM" where
  "state_b e m =
     (if sig e = Q_ENTRY_SIG then Q_HANDLED (cout ''Entering B'' m)
      else if sig e = Q_EXIT_SIG then Q_HANDLED (cout ''Exiting B'' m)
      else if sig e = Q_TIMEOUT_SIG then Q_TRAN (Some ptr_state_a) (cout ''Timeout B'' m)
      else Q_HANDLED m)"

fun MyFSM_handlers :: "(MyFSM_handler, string) handlers" where
  "MyFSM_handlers ptr_state_a = state_a"
| "MyFSM_handlers ptr_state_b = state_b"

definition my_event :: "QEvent list" where
  "my_event = [\<lparr>sig = Q_TIMEOUT_SIG\<rparr>]"

text \<open>
  \<open>main\<close>: construct the machine, \<open>init\<close> it in \<open>state_a\<close>, and run the loop
  \<open>for (int i = 0; i < 10; i++) fsm.dispatch(MyFSM::my_event[0])\<close>.
\<close>

function main_loop :: "nat \<Rightarrow> (MyFSM_handler, string) world \<Rightarrow> (MyFSM_handler, string) world option" where
  "main_loop i w =
     (if i < 10 then
        (case dispatch MyFSM_handlers (my_event ! 0) w of
           None \<Rightarrow> None
         | Some w' \<Rightarrow> main_loop (i + 1) w')
      else Some w)"
  by pat_completeness auto
termination
  by (relation "measure (\<lambda>(i, w). 10 - i)") auto

definition main :: "(MyFSM_handler, string) world option" where
  "main = do {
     w \<leftarrow> init MyFSM_handlers (Some ptr_state_a) (QFsm_new [], []);
     main_loop 0 w
   }"

section \<open>Observing a run\<close>

text \<open>The active handler after each dispatch of a sequence, in order.\<close>

fun active_after_each ::
  "('h, 'a) handlers \<Rightarrow> QEvent list \<Rightarrow> ('h, 'a) world \<Rightarrow> 'h option list option"
where
  "active_after_each F [] w = Some []"
| "active_after_each F (e # es) w =
     (case dispatch F e w of
        None \<Rightarrow> None
      | Some w' \<Rightarrow> map_option ((#) (m_state (fst w'))) (active_after_each F es w'))"

text \<open>The active handler after each of the ten dispatches of \<open>main\<close>.\<close>

definition main_active_sequence :: "MyFSM_handler option list option" where
  "main_active_sequence = do {
     w \<leftarrow> init MyFSM_handlers (Some ptr_state_a) (QFsm_new [], []);
     active_after_each MyFSM_handlers (replicate 10 (my_event ! 0)) w
   }"

text \<open>The calls of a list that carry signal \<open>s\<close>.\<close>

definition calls_with :: "QSignal \<Rightarrow> 'h call list \<Rightarrow> 'h call list" where
  "calls_with s cs = filter (\<lambda>c. sig (ev c) = s) cs"

text \<open>
  A run of dispatches in which no transition is requested: at every event the handler
  that is active returns \<open>Q_EVENT_HANDLED\<close> or \<open>Q_EVENT_IGNORED\<close> and has recorded no
  handler in \<open>m_state\<close>, as with \<open>Q_HANDLED()\<close> and \<open>Q_IGNORED()\<close>. (In this code a
  transition is requested by \<open>Q_TRAN\<close>, which records the target in \<open>m_state\<close> and
  yields \<open>Q_EVENT_TRAN\<close>.)
\<close>

fun no_transition_requested :: "('h, 'a) handlers \<Rightarrow> QEvent list \<Rightarrow> ('h, 'a) QFsm \<Rightarrow> bool" where
  "no_transition_requested F [] m = True"
| "no_transition_requested F (e # es) m =
     (case m_state m of
        None \<Rightarrow> False
      | Some a \<Rightarrow>
          (case F a e m of
             (r, m') \<Rightarrow>
               (r = Q_EVENT_HANDLED \<or> r = Q_EVENT_IGNORED) \<and> m_state m' = m_state m \<and>
               no_transition_requested F es m'))"

text \<open>
  Handler \<open>a\<close> reports event \<open>e\<close> as ignored: whenever it is called with \<open>e\<close> it returns
  \<open>Q_EVENT_IGNORED\<close> and leaves \<open>m_state\<close> as it found it, as with \<open>Q_IGNORED()\<close>.
\<close>

definition reports_ignored :: "('h, 'a) handlers \<Rightarrow> 'h \<Rightarrow> QEvent \<Rightarrow> bool" where
  "reports_ignored F a e =
     (\<forall>m. fst (F a e m) = Q_EVENT_IGNORED \<and> m_state (snd (F a e m)) = m_state m)"

section \<open>A client class whose handlers record handlers on reserved events\<close>

text \<open>
  The template accepts any class \<open>F\<close>. This one is written with the same three macros
  as \<open>MyFSM\<close>; its handlers use \<open>Q_TRAN\<close> also while they process reserved events:
  \<open>boot\<close> on \<open>INIT\<close>, \<open>hop\<close> on \<open>EXIT\<close> and \<open>mid\<close> on \<open>ENTRY\<close>. It has no fields.
\<close>

definition Q_GO_SIG :: QSignal where
  "Q_GO_SIG = Q_INIT_SIG + 1"

definition Q_LOOP_SIG :: QSignal where
  "Q_LOOP_SIG = Q_GO_SIG + 1"

definition Q_NOP_SIG :: QSignal where
  "Q_NOP_SIG = Q_LOOP_SIG + 1"

datatype Probe_handler = ptr_boot | ptr_hop | ptr_mid | ptr_sink | ptr_spin

type_synonym Probe = "(Probe_handler, unit) QFsm"

definition boot :: "QEvent \<Rightarrow> Probe \<Rightarrow> QState \<times> Probe" where
  "boot e m =
     (if sig e = Q_INIT_SIG then Q_TRAN (Some ptr_sink) m
      else Q_HANDLED m)"

definition hop :: "QEvent \<Rightarrow> Probe \<Rightarrow> QState \<times> Probe" where
  "hop e m =
     (if sig e = Q_EXIT_SIG then Q_TRAN (Some ptr_sink) m
      else if sig e = Q_GO_SIG then Q_TRAN (Some ptr_mid) m
      else if sig e = Q_LOOP_SIG then Q_TRAN (Some ptr_hop) m
      else Q_HANDLED m)"

definition mid :: "QEvent \<Rightarrow> Probe \<Rightarrow> QState \<times> Probe" where
  "mid e m =
     (if sig e = Q_ENTRY_SIG then Q_TRAN (Some ptr_spin) m
      else Q_HANDLED m)"

definition sink :: "QEvent \<Rightarrow> Probe \<Rightarrow> QState \<times> Probe" where
  "sink e m =
     (if sig e = Q_GO_SIG then Q_TRAN (Some ptr_mid) m
      else Q_HANDLED m)"

definition spin :: "QEvent \<Rightarrow> Probe \<Rightarrow> QState \<times> Probe" where
  "spin e m =
     (if sig e = Q_LOOP_SIG then Q_TRAN (Some ptr_spin) m
      else if sig e = Q_NOP_SIG then Q_IGNORED m
      else Q_HANDLED m)"

fun Probe_handlers :: "(Probe_handler, unit) handlers" where
  "Probe_handlers ptr_boot = boot"
| "Probe_handlers ptr_hop = hop"
| "Probe_handlers ptr_mid = mid"
| "Probe_handlers ptr_sink = sink"
| "Probe_handlers ptr_spin = spin"

text \<open>A \<open>Probe\<close> machine, constructed and then started with \<open>init(h)\<close>.\<close>

definition Probe_started :: "Probe_handler \<Rightarrow> (Probe_handler, unit) world option" where
  "Probe_started h = init Probe_handlers (Some h) (QFsm_new (), [])"

section \<open>Basic facts\<close>

lemmas result_defs = Q_EVENT_HANDLED_def Q_EVENT_IGNORED_def Q_EVENT_TRAN_def

lemmas signal_defs = Q_EMPTY_SIG_def Q_ENTRY_SIG_def Q_EXIT_SIG_def Q_INIT_SIG_def
  Q_TIMEOUT_SIG_def Q_GO_SIG_def Q_LOOP_SIG_def Q_NOP_SIG_def

lemmas macro_defs = Q_HANDLED_def Q_IGNORED_def Q_TRAN_def

lemmas Probe_defs = boot_def hop_def mid_def sink_def spin_def

lemma reserved_ev_num:
  "reserved_ev 1 = \<lparr>sig = 1\<rparr>" "reserved_ev 2 = \<lparr>sig = 2\<rparr>" "reserved_ev 3 = \<lparr>sig = 3\<rparr>"
  by (simp_all add: reserved_ev_def m_reserved_ev_def signal_defs)

lemma invoke_Some:
  "F h e m = (r, m') \<Longrightarrow> invoke F (Some h) e (m, cs) = Some (r, (m', cs @ [Call h e r]))"
  by (simp add: invoke_def)

text \<open>The two paths of \<open>dispatch\<close> on a running machine, and \<open>init\<close>.\<close>

lemma dispatch_no_tran:
  assumes "m_state m = Some a" and "F a e m = (r, m1)" and "r \<noteq> Q_EVENT_TRAN"
  shows "dispatch F e (m, cs) = Some (m1, cs @ [Call a e r])"
  using assms by (simp add: dispatch_def invoke_Some)

lemma dispatch_tran:
  assumes "m_state m = Some a" and "F a e m = (Q_EVENT_TRAN, m1)"
    and "F a (reserved_ev Q_EXIT_SIG) m1 = (r2, m2)" and "m_state m2 = Some c"
    and "F c (reserved_ev Q_ENTRY_SIG) m2 = (r3, m3)"
  shows "dispatch F e (m, cs) =
    Some (m3, cs @ [Call a e Q_EVENT_TRAN, Call a (reserved_ev Q_EXIT_SIG) r2,
                    Call c (reserved_ev Q_ENTRY_SIG) r3])"
  using assms by (simp add: dispatch_def invoke_Some)

lemma init_calls:
  assumes "F h (reserved_ev Q_INIT_SIG) (m\<lparr>m_state := Some h\<rparr>) = (r1, m1)"
    and "m_state m1 = Some c"
    and "F c (reserved_ev Q_ENTRY_SIG) m1 = (r2, m2)"
  shows "init F (Some h) (m, cs) =
    Some (m2, cs @ [Call h (reserved_ev Q_INIT_SIG) r1, Call c (reserved_ev Q_ENTRY_SIG) r2])"
  using assms by (simp add: init_def invoke_Some)

text \<open>
  When the model has no result: \<open>dispatch\<close> only if, on the transition path, the slot is
  null after the \<open>EXIT\<close> call; \<open>init\<close> only if it is given a null handler or the slot
  is null after the \<open>INIT\<close> call.
\<close>

lemma dispatch_None_iff:
  "dispatch F e (m, cs) = None \<longleftrightarrow>
     (\<exists>a m1 r2 m2. m_state m = Some a \<and> F a e m = (Q_EVENT_TRAN, m1) \<and>
        F a (reserved_ev Q_EXIT_SIG) m1 = (r2, m2) \<and> m_state m2 = None)"
proof (cases "m_state m")
  case None
  then show ?thesis by (simp add: dispatch_def)
next
  case (Some a)
  obtain r m1 where h1: "F a e m = (r, m1)" by (cases "F a e m")
  obtain r2 m2 where h2: "F a (reserved_ev Q_EXIT_SIG) m1 = (r2, m2)"
    by (cases "F a (reserved_ev Q_EXIT_SIG) m1")
  from Some h1 h2 show ?thesis
    by (cases "m_state m2") (auto simp: dispatch_def invoke_def split: prod.splits)
qed

lemma init_None_iff:
  "init F p (m, cs) = None \<longleftrightarrow>
     (p = None \<or> (\<exists>h r1 m1. p = Some h \<and>
        F h (reserved_ev Q_INIT_SIG) (m\<lparr>m_state := Some h\<rparr>) = (r1, m1) \<and> m_state m1 = None))"
proof (cases p)
  case None
  then show ?thesis by (simp add: init_def invoke_def)
next
  case (Some h)
  obtain r1 m1 where h1: "F h (reserved_ev Q_INIT_SIG) (m\<lparr>m_state := Some h\<rparr>) = (r1, m1)"
    by (cases "F h (reserved_ev Q_INIT_SIG) (m\<lparr>m_state := Some h\<rparr>)")
  from Some h1 show ?thesis
    by (cases "m_state m1") (auto simp: init_def invoke_def split: prod.splits)
qed

text \<open>The loop of \<open>main\<close> dispatches \<open>my_event[0]\<close> once for every \<open>i\<close> below ten.\<close>

lemma main_loop_dispatch_all:
  "main_loop i w = dispatch_all MyFSM_handlers (replicate (10 - i) (my_event ! 0)) w"
proof (induction i w rule: main_loop.induct)
  case (1 i w)
  show ?case
  proof (cases "i < 10")
    case True
    then have "10 - i = Suc (10 - (i + 1))" by simp
    then have "replicate (10 - i) (my_event ! 0) =
        my_event ! 0 # replicate (10 - (i + 1)) (my_event ! 0)"
      by (simp only: replicate_Suc)
    with True 1 show ?thesis by (simp split: option.split)
  next
    case False
    then show ?thesis by simp
  qed
qed

lemma replicate_10: "replicate 10 x = [x, x, x, x, x, x, x, x, x, x]"
  by (simp add: numeral_eq_Suc)

lemma replicate_5: "replicate 5 x = [x, x, x, x, x]"
  by (simp add: numeral_eq_Suc)

subsection \<open>Single steps of the example machine\<close>

lemma my_event_0: "my_event ! 0 = \<lparr>sig = 4\<rparr>"
  by (simp add: my_event_def signal_defs)

lemma MyFSM_init:
  "init MyFSM_handlers (Some ptr_state_a) (QFsm_new [], []) =
   Some (\<lparr>m_state = Some ptr_state_a, derived = ''Entering A'' @ [CHR 0x0A]\<rparr>,
         [Call ptr_state_a \<lparr>sig = 3\<rparr> 0, Call ptr_state_a \<lparr>sig = 1\<rparr> 0])"
  by (simp add: init_def invoke_def state_a_def QFsm_new_def cout_def macro_defs
      result_defs signal_defs reserved_ev_num)

lemma MyFSM_timeout_a:
  "dispatch MyFSM_handlers \<lparr>sig = 4\<rparr> (\<lparr>m_state = Some ptr_state_a, derived = d\<rparr>, cs) =
   Some (\<lparr>m_state = Some ptr_state_b,
           derived = d @ ''Timeout A'' @ [CHR 0x0A] @ ''Exiting A'' @ [CHR 0x0A] @
                     ''Entering B'' @ [CHR 0x0A]\<rparr>,
         cs @ [Call ptr_state_a \<lparr>sig = 4\<rparr> 2, Call ptr_state_a \<lparr>sig = 2\<rparr> 0,
               Call ptr_state_b \<lparr>sig = 1\<rparr> 0])"
  by (simp add: dispatch_def invoke_def state_a_def state_b_def cout_def macro_defs
      result_defs signal_defs reserved_ev_num)

lemma MyFSM_timeout_b:
  "dispatch MyFSM_handlers \<lparr>sig = 4\<rparr> (\<lparr>m_state = Some ptr_state_b, derived = d\<rparr>, cs) =
   Some (\<lparr>m_state = Some ptr_state_a,
           derived = d @ ''Timeout B'' @ [CHR 0x0A] @ ''Exiting B'' @ [CHR 0x0A] @
                     ''Entering A'' @ [CHR 0x0A]\<rparr>,
         cs @ [Call ptr_state_b \<lparr>sig = 4\<rparr> 2, Call ptr_state_b \<lparr>sig = 2\<rparr> 0,
               Call ptr_state_a \<lparr>sig = 1\<rparr> 0])"
  by (simp add: dispatch_def invoke_def state_a_def state_b_def cout_def macro_defs
      result_defs signal_defs reserved_ev_num)

lemma main_value:
  "main = Some (\<lparr>m_state = Some ptr_state_a,
      derived = ''Entering A'' @ [CHR 0x0A] @ concat (replicate 5
        (''Timeout A'' @ [CHR 0x0A] @ ''Exiting A'' @ [CHR 0x0A] @ ''Entering B'' @ [CHR 0x0A] @
         ''Timeout B'' @ [CHR 0x0A] @ ''Exiting B'' @ [CHR 0x0A] @ ''Entering A'' @ [CHR 0x0A]))\<rparr>,
      [Call ptr_state_a \<lparr>sig = 3\<rparr> 0, Call ptr_state_a \<lparr>sig = 1\<rparr> 0] @
      concat (replicate 5
        [Call ptr_state_a \<lparr>sig = 4\<rparr> 2, Call ptr_state_a \<lparr>sig = 2\<rparr> 0,
         Call ptr_state_b \<lparr>sig = 1\<rparr> 0,
         Call ptr_state_b \<lparr>sig = 4\<rparr> 2, Call ptr_state_b \<lparr>sig = 2\<rparr> 0,
         Call ptr_state_a \<lparr>sig = 1\<rparr> 0]))"
  by (simp add: main_def MyFSM_init main_loop_dispatch_all my_event_0 replicate_10 replicate_5
      MyFSM_timeout_a MyFSM_timeout_b)

lemma main_active_sequence_value:
  "main_active_sequence =
     Some [Some ptr_state_b, Some ptr_state_a, Some ptr_state_b, Some ptr_state_a,
           Some ptr_state_b, Some ptr_state_a, Some ptr_state_b, Some ptr_state_a,
           Some ptr_state_b, Some ptr_state_a]"
  by (simp add: main_active_sequence_def MyFSM_init my_event_0 replicate_10
      MyFSM_timeout_a MyFSM_timeout_b)

subsection \<open>Single steps of the \<open>Probe\<close> machine\<close>

lemma Probe_started_hop:
  "Probe_started ptr_hop =
     Some (\<lparr>m_state = Some ptr_hop, derived = ()\<rparr>,
           [Call ptr_hop \<lparr>sig = 3\<rparr> 0, Call ptr_hop \<lparr>sig = 1\<rparr> 0])"
  by (simp add: Probe_started_def init_def invoke_def QFsm_new_def Probe_defs macro_defs
      result_defs signal_defs reserved_ev_num)

lemma Probe_hop_go:
  "dispatch Probe_handlers \<lparr>sig = 4\<rparr> (\<lparr>m_state = Some ptr_hop, derived = ()\<rparr>, cs) =
     Some (\<lparr>m_state = Some ptr_sink, derived = ()\<rparr>,
           cs @ [Call ptr_hop \<lparr>sig = 4\<rparr> 2, Call ptr_hop \<lparr>sig = 2\<rparr> 2,
                 Call ptr_sink \<lparr>sig = 1\<rparr> 0])"
  by (simp add: dispatch_def invoke_def Probe_defs macro_defs result_defs signal_defs
      reserved_ev_num)

lemma Probe_hop_loop:
  "dispatch Probe_handlers \<lparr>sig = 5\<rparr> (\<lparr>m_state = Some ptr_hop, derived = ()\<rparr>, cs) =
     Some (\<lparr>m_state = Some ptr_sink, derived = ()\<rparr>,
           cs @ [Call ptr_hop \<lparr>sig = 5\<rparr> 2, Call ptr_hop \<lparr>sig = 2\<rparr> 2,
                 Call ptr_sink \<lparr>sig = 1\<rparr> 0])"
  by (simp add: dispatch_def invoke_def Probe_defs macro_defs result_defs signal_defs
      reserved_ev_num)

lemma Probe_init_boot:
  "init Probe_handlers (Some ptr_boot) (QFsm_new (), []) =
     Some (\<lparr>m_state = Some ptr_sink, derived = ()\<rparr>,
           [Call ptr_boot \<lparr>sig = 3\<rparr> 2, Call ptr_sink \<lparr>sig = 1\<rparr> 0])"
  by (simp add: init_def invoke_def QFsm_new_def Probe_defs macro_defs
      result_defs signal_defs reserved_ev_num)

section \<open>The reserved signals\<close>

text \<open>
  Claim C6. The reserved signals are the constants \<open>EMPTY = 0\<close>, \<open>ENTRY = 1\<close>,
  \<open>EXIT = 2\<close> and \<open>INIT = 3\<close>; the table of reserved events is one constant for all
  machines, and the event it holds for each reserved signal carries exactly that signal.
  The application signal of the example, \<open>TIMEOUT\<close>, is \<open>INIT + 1\<close>.
\<close>

theorem reserved_signal_values:
  "Q_EMPTY_SIG = 0 \<and> Q_ENTRY_SIG = 1 \<and> Q_EXIT_SIG = 2 \<and> Q_INIT_SIG = 3 \<and>
   map sig m_reserved_ev = [Q_EMPTY_SIG, Q_ENTRY_SIG, Q_EXIT_SIG, Q_INIT_SIG] \<and>
   sig (reserved_ev Q_EMPTY_SIG) = Q_EMPTY_SIG \<and>
   sig (reserved_ev Q_ENTRY_SIG) = Q_ENTRY_SIG \<and>
   sig (reserved_ev Q_EXIT_SIG) = Q_EXIT_SIG \<and>
   sig (reserved_ev Q_INIT_SIG) = Q_INIT_SIG \<and>
   Q_TIMEOUT_SIG = Q_INIT_SIG + 1 \<and> Q_INIT_SIG < Q_TIMEOUT_SIG"
  by (simp add: reserved_ev_def m_reserved_ev_def signal_defs)

section \<open>\<open>init\<close>\<close>

text \<open>
  Claim C2, amended. Let \<open>H0\<close> be a handler whose processing of \<open>INIT\<close> and of \<open>ENTRY\<close>
  leaves \<open>H0\<close> in the active-handler slot. Then \<open>init(H0)\<close> returns, the machine is
  running with active handler \<open>H0\<close>, and the calls made are exactly \<open>INIT\<close> to \<open>H0\<close>
  followed by \<open>ENTRY\<close> to \<open>H0\<close>, nothing else. The values \<open>r1\<close> and \<open>r2\<close> that the two
  calls return are arbitrary: they are ignored.
\<close>

theorem init_calls_start_handler:
  assumes "F start (reserved_ev Q_INIT_SIG) (m\<lparr>m_state := Some start\<rparr>) = (r1, m1)"
    and "m_state m1 = Some start"
    and "F start (reserved_ev Q_ENTRY_SIG) m1 = (r2, m2)"
    and "m_state m2 = Some start"
  shows "init F (Some start) (m, cs) =
           Some (m2, cs @ [Call start (reserved_ev Q_INIT_SIG) r1,
                           Call start (reserved_ev Q_ENTRY_SIG) r2]) \<and>
         m_state m2 = Some start"
  using assms by (simp add: init_calls)

theorem init_calls_start_handler_witness:
  "init MyFSM_handlers (Some ptr_state_a) (QFsm_new [], []) =
     Some (\<lparr>m_state = Some ptr_state_a, derived = ''Entering A'' @ [CHR 0x0A]\<rparr>,
           [] @ [Call ptr_state_a (reserved_ev Q_INIT_SIG) Q_EVENT_HANDLED,
                 Call ptr_state_a (reserved_ev Q_ENTRY_SIG) Q_EVENT_HANDLED]) \<and>
   m_state \<lparr>m_state = Some ptr_state_a, derived = ''Entering A'' @ [CHR 0x0A]\<rparr> =
     Some ptr_state_a"
proof -
  let ?m1 = "(QFsm_new [])\<lparr>m_state := Some ptr_state_a\<rparr>"
  let ?m2 = "\<lparr>m_state = Some ptr_state_a, derived = ''Entering A'' @ [CHR 0x0A]\<rparr>"
  have h1: "MyFSM_handlers ptr_state_a (reserved_ev Q_INIT_SIG)
      ((QFsm_new [])\<lparr>m_state := Some ptr_state_a\<rparr>) = (Q_EVENT_HANDLED, ?m1)"
    by (simp add: state_a_def macro_defs signal_defs reserved_ev_num)
  have h2: "m_state ?m1 = Some ptr_state_a" by simp
  have h3: "MyFSM_handlers ptr_state_a (reserved_ev Q_ENTRY_SIG) ?m1 = (Q_EVENT_HANDLED, ?m2)"
    by (simp add: state_a_def macro_defs signal_defs reserved_ev_num cout_def QFsm_new_def)
  have h4: "m_state ?m2 = Some ptr_state_a" by simp
  show ?thesis
    by (rule init_calls_start_handler
        [where F = MyFSM_handlers and start = ptr_state_a and m = "QFsm_new []" and cs = "[]",
         OF h1 h2 h3 h4])
qed

text \<open>
  As the claim is written, without the proviso, it fails for a handler that uses
  \<open>Q_TRAN\<close> while it processes \<open>INIT\<close>: \<open>init(boot)\<close> delivers \<open>ENTRY\<close> to \<open>sink\<close>,
  and \<open>sink\<close> is active afterwards.
\<close>

theorem init_start_handler_counterexample:
  "init Probe_handlers (Some ptr_boot) (QFsm_new (), []) =
     Some (\<lparr>m_state = Some ptr_sink, derived = ()\<rparr>,
           [Call ptr_boot (reserved_ev Q_INIT_SIG) Q_EVENT_TRAN,
            Call ptr_sink (reserved_ev Q_ENTRY_SIG) Q_EVENT_HANDLED]) \<and>
   ptr_sink \<noteq> ptr_boot"
  by (simp add: Probe_init_boot result_defs signal_defs reserved_ev_num)

section \<open>\<open>dispatch\<close>\<close>

text \<open>
  Claim C4. On a freshly constructed machine, on which \<open>init\<close> was never called,
  \<open>dispatch\<close> of any event returns normally and does nothing: the object is as it was
  and no handler invocation is added to the call list.
\<close>

theorem dispatch_before_init_noop:
  "dispatch F e (QFsm_new d, cs) = Some (QFsm_new d, cs)"
  by (simp add: dispatch_def QFsm_new_def)

text \<open>
  Claim C1, amended. Let the machine be running with active handler \<open>A\<close>, and let \<open>A\<close>
  on event \<open>e\<close> request a transition to a different handler \<open>B\<close> (it records \<open>B\<close> and
  returns \<open>Q_EVENT_TRAN\<close>). If \<open>A\<close>'s processing of \<open>EXIT\<close> and \<open>B\<close>'s processing of
  \<open>ENTRY\<close> leave the active-handler slot as they found it, then the calls made by this one
  \<open>dispatch\<close> are exactly: \<open>A\<close> receives \<open>e\<close>, then \<open>A\<close> receives \<open>EXIT\<close>, then \<open>B\<close>
  receives \<open>ENTRY\<close>; afterwards the active handler is \<open>B\<close>.
\<close>

theorem dispatch_transition_calls:
  assumes "m_state m = Some a" and "a \<noteq> b"
    and "F a e m = (Q_EVENT_TRAN, m1)" and "m_state m1 = Some b"
    and "F a (reserved_ev Q_EXIT_SIG) m1 = (r2, m2)" and "m_state m2 = m_state m1"
    and "F b (reserved_ev Q_ENTRY_SIG) m2 = (r3, m3)" and "m_state m3 = m_state m2"
  shows "dispatch F e (m, cs) =
           Some (m3, cs @ [Call a e Q_EVENT_TRAN, Call a (reserved_ev Q_EXIT_SIG) r2,
                           Call b (reserved_ev Q_ENTRY_SIG) r3]) \<and>
         m_state m3 = Some b"
proof -
  from assms(4,6) have slot: "m_state m2 = Some b" by simp
  have "dispatch F e (m, cs) =
      Some (m3, cs @ [Call a e Q_EVENT_TRAN, Call a (reserved_ev Q_EXIT_SIG) r2,
                      Call b (reserved_ev Q_ENTRY_SIG) r3])"
    by (rule dispatch_tran [OF assms(1) assms(3) assms(5) slot assms(7)])
  moreover from slot assms(8) have "m_state m3 = Some b" by simp
  ultimately show ?thesis by simp
qed

theorem dispatch_transition_calls_witness:
  "dispatch MyFSM_handlers (my_event ! 0)
     (\<lparr>m_state = Some ptr_state_a, derived = []\<rparr>, []) =
     Some (\<lparr>m_state = Some ptr_state_b,
             derived = ''Timeout A'' @ [CHR 0x0A] @ ''Exiting A'' @ [CHR 0x0A] @
                       ''Entering B'' @ [CHR 0x0A]\<rparr>,
           [] @ [Call ptr_state_a (my_event ! 0) Q_EVENT_TRAN,
                 Call ptr_state_a (reserved_ev Q_EXIT_SIG) Q_EVENT_HANDLED,
                 Call ptr_state_b (reserved_ev Q_ENTRY_SIG) Q_EVENT_HANDLED]) \<and>
   m_state \<lparr>m_state = Some ptr_state_b,
            derived = ''Timeout A'' @ [CHR 0x0A] @ ''Exiting A'' @ [CHR 0x0A] @
                      ''Entering B'' @ [CHR 0x0A]\<rparr> = Some ptr_state_b"
proof -
  let ?m = "\<lparr>m_state = Some ptr_state_a, derived = []\<rparr> :: MyFSM"
  let ?m1 = "\<lparr>m_state = Some ptr_state_b, derived = ''Timeout A'' @ [CHR 0x0A]\<rparr> :: MyFSM"
  let ?m2 = "\<lparr>m_state = Some ptr_state_b,
              derived = ''Timeout A'' @ [CHR 0x0A] @ ''Exiting A'' @ [CHR 0x0A]\<rparr> :: MyFSM"
  let ?m3 = "\<lparr>m_state = Some ptr_state_b,
              derived = ''Timeout A'' @ [CHR 0x0A] @ ''Exiting A'' @ [CHR 0x0A] @
                        ''Entering B'' @ [CHR 0x0A]\<rparr> :: MyFSM"
  have h1: "m_state ?m = Some ptr_state_a" by simp
  have h2: "ptr_state_a \<noteq> ptr_state_b" by simp
  have h3: "MyFSM_handlers ptr_state_a (my_event ! 0) ?m = (Q_EVENT_TRAN, ?m1)"
    by (simp add: state_a_def macro_defs signal_defs my_event_def cout_def)
  have h4: "m_state ?m1 = Some ptr_state_b" by simp
  have h5: "MyFSM_handlers ptr_state_a (reserved_ev Q_EXIT_SIG) ?m1 = (Q_EVENT_HANDLED, ?m2)"
    by (simp add: state_a_def macro_defs signal_defs reserved_ev_num cout_def)
  have h6: "m_state ?m2 = m_state ?m1" by simp
  have h7: "MyFSM_handlers ptr_state_b (reserved_ev Q_ENTRY_SIG) ?m2 = (Q_EVENT_HANDLED, ?m3)"
    by (simp add: state_b_def macro_defs signal_defs reserved_ev_num cout_def)
  have h8: "m_state ?m3 = m_state ?m2" by simp
  show ?thesis by (rule dispatch_transition_calls [OF h1 h2 h3 h4 h5 h6 h7 h8])
qed

text \<open>
  As the claim is written, without the proviso, it fails when the old handler uses
  \<open>Q_TRAN\<close> while it processes \<open>EXIT\<close>. In the \<open>Probe\<close> machine started in \<open>hop\<close>, \<open>hop\<close> answers \<open>GO\<close> with a
  transition to \<open>mid\<close>, but \<open>ENTRY\<close> is delivered to \<open>sink\<close> and \<open>sink\<close> is the active
  handler afterwards.
\<close>

theorem dispatch_transition_counterexample:
  "hop \<lparr>sig = Q_GO_SIG\<rparr> \<lparr>m_state = Some ptr_hop, derived = ()\<rparr> =
     Q_TRAN (Some ptr_mid) \<lparr>m_state = Some ptr_hop, derived = ()\<rparr> \<and>
   ptr_hop \<noteq> ptr_mid \<and>
   Option.bind (Probe_started ptr_hop) (dispatch Probe_handlers \<lparr>sig = Q_GO_SIG\<rparr>) =
     Some (\<lparr>m_state = Some ptr_sink, derived = ()\<rparr>,
           [Call ptr_hop (reserved_ev Q_INIT_SIG) Q_EVENT_HANDLED,
            Call ptr_hop (reserved_ev Q_ENTRY_SIG) Q_EVENT_HANDLED,
            Call ptr_hop \<lparr>sig = Q_GO_SIG\<rparr> Q_EVENT_TRAN,
            Call ptr_hop (reserved_ev Q_EXIT_SIG) Q_EVENT_TRAN,
            Call ptr_sink (reserved_ev Q_ENTRY_SIG) Q_EVENT_HANDLED]) \<and>
   ptr_sink \<noteq> ptr_mid"
  by (simp add: Probe_started_hop Probe_hop_go hop_def macro_defs result_defs signal_defs
      reserved_ev_num)

text \<open>
  Claim C3, amended. Let the machine be running with active handler \<open>A\<close>, and let \<open>A\<close>
  on event \<open>e\<close> request a transition to \<open>A\<close> itself. If \<open>A\<close>'s processing of \<open>EXIT\<close>
  and of \<open>ENTRY\<close> leaves the active-handler slot as it found it, then the calls made by
  this one \<open>dispatch\<close> are exactly: \<open>A\<close> receives \<open>e\<close>, then \<open>EXIT\<close>, then \<open>ENTRY\<close>;
  afterwards the active handler is still \<open>A\<close>.
\<close>

theorem dispatch_self_transition_calls:
  assumes "m_state m = Some a"
    and "F a e m = (Q_EVENT_TRAN, m1)" and "m_state m1 = Some a"
    and "F a (reserved_ev Q_EXIT_SIG) m1 = (r2, m2)" and "m_state m2 = m_state m1"
    and "F a (reserved_ev Q_ENTRY_SIG) m2 = (r3, m3)" and "m_state m3 = m_state m2"
  shows "dispatch F e (m, cs) =
           Some (m3, cs @ [Call a e Q_EVENT_TRAN, Call a (reserved_ev Q_EXIT_SIG) r2,
                           Call a (reserved_ev Q_ENTRY_SIG) r3]) \<and>
         m_state m3 = Some a"
proof -
  from assms(3,5) have slot: "m_state m2 = Some a" by simp
  have "dispatch F e (m, cs) =
      Some (m3, cs @ [Call a e Q_EVENT_TRAN, Call a (reserved_ev Q_EXIT_SIG) r2,
                      Call a (reserved_ev Q_ENTRY_SIG) r3])"
    by (rule dispatch_tran [where F = F and a = a and c = a,
          OF assms(1) assms(2) assms(4) slot assms(6)])
  moreover from slot assms(7) have "m_state m3 = Some a" by simp
  ultimately show ?thesis by simp
qed

theorem dispatch_self_transition_calls_witness:
  "dispatch Probe_handlers \<lparr>sig = Q_LOOP_SIG\<rparr> (\<lparr>m_state = Some ptr_spin, derived = ()\<rparr>, []) =
     Some (\<lparr>m_state = Some ptr_spin, derived = ()\<rparr>,
           [] @ [Call ptr_spin \<lparr>sig = Q_LOOP_SIG\<rparr> Q_EVENT_TRAN,
                 Call ptr_spin (reserved_ev Q_EXIT_SIG) Q_EVENT_HANDLED,
                 Call ptr_spin (reserved_ev Q_ENTRY_SIG) Q_EVENT_HANDLED]) \<and>
   m_state \<lparr>m_state = Some ptr_spin, derived = ()\<rparr> = Some ptr_spin"
proof -
  let ?m = "\<lparr>m_state = Some ptr_spin, derived = ()\<rparr> :: Probe"
  have h1: "m_state ?m = Some ptr_spin" by simp
  have h2: "Probe_handlers ptr_spin \<lparr>sig = Q_LOOP_SIG\<rparr> ?m = (Q_EVENT_TRAN, ?m)"
    by (simp add: spin_def macro_defs)
  have h3: "Probe_handlers ptr_spin (reserved_ev Q_EXIT_SIG) ?m = (Q_EVENT_HANDLED, ?m)"
    by (simp add: spin_def macro_defs signal_defs reserved_ev_num)
  have h4: "m_state ?m = m_state ?m" by simp
  have h5: "Probe_handlers ptr_spin (reserved_ev Q_ENTRY_SIG) ?m = (Q_EVENT_HANDLED, ?m)"
    by (simp add: spin_def macro_defs signal_defs reserved_ev_num)
  show ?thesis
    by (rule dispatch_self_transition_calls
        [where F = Probe_handlers and a = ptr_spin and cs = "[]", OF h1 h2 h1 h3 h4 h5 h4])
qed

text \<open>
  As the claim is written, without the proviso, it fails when the handler uses \<open>Q_TRAN\<close>
  while it processes \<open>EXIT\<close>. In the \<open>Probe\<close> machine started in \<open>hop\<close>, \<open>hop\<close> answers
  \<open>LOOP\<close> with a transition to itself, but \<open>ENTRY\<close> is delivered to \<open>sink\<close> and the
  active handler afterwards is \<open>sink\<close>, not \<open>hop\<close>.
\<close>

theorem dispatch_self_transition_counterexample:
  "hop \<lparr>sig = Q_LOOP_SIG\<rparr> \<lparr>m_state = Some ptr_hop, derived = ()\<rparr> =
     Q_TRAN (Some ptr_hop) \<lparr>m_state = Some ptr_hop, derived = ()\<rparr> \<and>
   Option.bind (Probe_started ptr_hop) (dispatch Probe_handlers \<lparr>sig = Q_LOOP_SIG\<rparr>) =
     Some (\<lparr>m_state = Some ptr_sink, derived = ()\<rparr>,
           [Call ptr_hop (reserved_ev Q_INIT_SIG) Q_EVENT_HANDLED,
            Call ptr_hop (reserved_ev Q_ENTRY_SIG) Q_EVENT_HANDLED,
            Call ptr_hop \<lparr>sig = Q_LOOP_SIG\<rparr> Q_EVENT_TRAN,
            Call ptr_hop (reserved_ev Q_EXIT_SIG) Q_EVENT_TRAN,
            Call ptr_sink (reserved_ev Q_ENTRY_SIG) Q_EVENT_HANDLED]) \<and>
   ptr_sink \<noteq> ptr_hop"
  by (simp add: Probe_started_hop Probe_hop_loop hop_def macro_defs result_defs signal_defs
      reserved_ev_num)

text \<open>
  Claim C9. In \<open>dispatch\<close>, after the active handler \<open>A\<close> has answered the event with
  \<open>Q_EVENT_TRAN\<close> and has then processed \<open>EXIT\<close>, the \<open>ENTRY\<close> event goes to the handler
  \<open>C\<close> that the slot holds at that moment. Nothing is assumed about the handler that the
  triggering event recorded (the slot of \<open>m1\<close>): if the processing of \<open>EXIT\<close> records
  another handler, that latest one receives \<open>ENTRY\<close>.
\<close>

theorem entry_target_read_after_exit:
  assumes "m_state m = Some a"
    and "F a e m = (Q_EVENT_TRAN, m1)"
    and "F a (reserved_ev Q_EXIT_SIG) m1 = (r2, m2)"
    and "m_state m2 = Some c"
    and "F c (reserved_ev Q_ENTRY_SIG) m2 = (r3, m3)"
  shows "dispatch F e (m, cs) =
           Some (m3, cs @ [Call a e Q_EVENT_TRAN, Call a (reserved_ev Q_EXIT_SIG) r2,
                           Call c (reserved_ev Q_ENTRY_SIG) r3])"
  using assms by (rule dispatch_tran)

text \<open>
  An instance in which the triggering event recorded \<open>mid\<close> and the processing of
  \<open>EXIT\<close> recorded \<open>sink\<close>: \<open>ENTRY\<close> goes to \<open>sink\<close>.
\<close>

theorem entry_target_read_after_exit_witness:
  "m_state (snd (hop \<lparr>sig = Q_GO_SIG\<rparr> \<lparr>m_state = Some ptr_hop, derived = ()\<rparr>)) = Some ptr_mid \<and>
   m_state (snd (hop (reserved_ev Q_EXIT_SIG) \<lparr>m_state = Some ptr_mid, derived = ()\<rparr>)) =
     Some ptr_sink \<and>
   dispatch Probe_handlers \<lparr>sig = Q_GO_SIG\<rparr> (\<lparr>m_state = Some ptr_hop, derived = ()\<rparr>, []) =
     Some (\<lparr>m_state = Some ptr_sink, derived = ()\<rparr>,
           [] @ [Call ptr_hop \<lparr>sig = Q_GO_SIG\<rparr> Q_EVENT_TRAN,
                 Call ptr_hop (reserved_ev Q_EXIT_SIG) Q_EVENT_TRAN,
                 Call ptr_sink (reserved_ev Q_ENTRY_SIG) Q_EVENT_HANDLED])"
proof -
  let ?m = "\<lparr>m_state = Some ptr_hop, derived = ()\<rparr> :: Probe"
  let ?m1 = "\<lparr>m_state = Some ptr_mid, derived = ()\<rparr> :: Probe"
  let ?m2 = "\<lparr>m_state = Some ptr_sink, derived = ()\<rparr> :: Probe"
  have h1: "m_state ?m = Some ptr_hop" by simp
  have h2: "Probe_handlers ptr_hop \<lparr>sig = Q_GO_SIG\<rparr> ?m = (Q_EVENT_TRAN, ?m1)"
    by (simp add: hop_def macro_defs signal_defs)
  have h3: "Probe_handlers ptr_hop (reserved_ev Q_EXIT_SIG) ?m1 = (Q_EVENT_TRAN, ?m2)"
    by (simp add: hop_def macro_defs signal_defs reserved_ev_num)
  have h4: "m_state ?m2 = Some ptr_sink" by simp
  have h5: "Probe_handlers ptr_sink (reserved_ev Q_ENTRY_SIG) ?m2 = (Q_EVENT_HANDLED, ?m2)"
    by (simp add: sink_def macro_defs signal_defs reserved_ev_num)
  have "dispatch Probe_handlers \<lparr>sig = Q_GO_SIG\<rparr> (?m, []) =
     Some (?m2, [] @ [Call ptr_hop \<lparr>sig = Q_GO_SIG\<rparr> Q_EVENT_TRAN,
                      Call ptr_hop (reserved_ev Q_EXIT_SIG) Q_EVENT_TRAN,
                      Call ptr_sink (reserved_ev Q_ENTRY_SIG) Q_EVENT_HANDLED])"
    by (rule entry_target_read_after_exit [OF h1 h2 h3 h4 h5])
  moreover from h2 have "m_state (snd (hop \<lparr>sig = Q_GO_SIG\<rparr> ?m)) = Some ptr_mid" by simp
  moreover from h3 have "m_state (snd (hop (reserved_ev Q_EXIT_SIG) ?m1)) = Some ptr_sink"
    by simp
  ultimately show ?thesis by simp
qed

text \<open>
  Claim C10, amended. Every call of \<open>dispatch\<close> that returns (that is, makes no call
  through a null slot, see \<open>dispatch_None_iff\<close>) has made at most three
  handler invocations, in one of three shapes: none (no active handler); one, with the
  caller's event, whose result is not \<open>Q_EVENT_TRAN\<close>; or three, the caller's event,
  \<open>EXIT\<close> to the same handler and \<open>ENTRY\<close>. The values returned by the \<open>EXIT\<close> and
  \<open>ENTRY\<close> calls (\<open>r2\<close>, \<open>r3\<close>) are discarded, so a transition requested while
  processing them mutates the slot but adds no delivery. A handler recorded during
  \<open>EXIT\<close> processing is the one (\<open>c\<close>) that receives the single \<open>ENTRY\<close>; a handler
  recorded during \<open>ENTRY\<close> processing stays in the slot of the returned object
  \<open>m'\<close> and nothing is delivered to it in that call.
\<close>

theorem dispatch_call_bound:
  assumes "dispatch F e (m, cs) = Some (m', cs')"
  shows "length cs' \<le> length cs + 3 \<and>
    ((m_state m = None \<and> m' = m \<and> cs' = cs)
    \<or> (\<exists>a r. m_state m = Some a \<and> F a e m = (r, m') \<and> r \<noteq> Q_EVENT_TRAN \<and>
          cs' = cs @ [Call a e r])
    \<or> (\<exists>a m1 r2 m2 c r3. m_state m = Some a \<and> F a e m = (Q_EVENT_TRAN, m1) \<and>
          F a (reserved_ev Q_EXIT_SIG) m1 = (r2, m2) \<and> m_state m2 = Some c \<and>
          F c (reserved_ev Q_ENTRY_SIG) m2 = (r3, m') \<and>
          cs' = cs @ [Call a e Q_EVENT_TRAN, Call a (reserved_ev Q_EXIT_SIG) r2,
                      Call c (reserved_ev Q_ENTRY_SIG) r3]))"
proof (cases "m_state m")
  case None
  with assms show ?thesis by (simp add: dispatch_def)
next
  case (Some a)
  obtain r m1 where h1: "F a e m = (r, m1)" by (cases "F a e m")
  show ?thesis
  proof (cases "r = Q_EVENT_TRAN")
    case False
    with Some h1 assms show ?thesis by (auto simp: dispatch_no_tran)
  next
    case True
    obtain r2 m2 where h2: "F a (reserved_ev Q_EXIT_SIG) m1 = (r2, m2)"
      by (cases "F a (reserved_ev Q_EXIT_SIG) m1")
    show ?thesis
    proof (cases "m_state m2")
      case None
      with Some h1 h2 True assms show ?thesis
        by (simp add: dispatch_def invoke_def)
    next
      case c: (Some c)
      obtain r3 m3 where h3: "F c (reserved_ev Q_ENTRY_SIG) m2 = (r3, m3)"
        by (cases "F c (reserved_ev Q_ENTRY_SIG) m2")
      from Some h1 True h2 c h3 have
        "dispatch F e (m, cs) = Some (m3, cs @ [Call a e Q_EVENT_TRAN,
           Call a (reserved_ev Q_EXIT_SIG) r2, Call c (reserved_ev Q_ENTRY_SIG) r3])"
        by (simp add: dispatch_tran)
      with assms Some h1 True h2 c h3 show ?thesis by auto
    qed
  qed
qed

text \<open>
  An instance: \<open>sink\<close> answers \<open>GO\<close> with a transition to \<open>mid\<close>, and \<open>mid\<close> records
  \<open>spin\<close> while it processes \<open>ENTRY\<close>. The call list has three entries and none of them
  is a call of \<open>spin\<close>, which is left in the slot.
\<close>

theorem dispatch_call_bound_witness:
  "dispatch Probe_handlers \<lparr>sig = Q_GO_SIG\<rparr> (\<lparr>m_state = Some ptr_sink, derived = ()\<rparr>, []) =
     Some (\<lparr>m_state = Some ptr_spin, derived = ()\<rparr>,
           [Call ptr_sink \<lparr>sig = Q_GO_SIG\<rparr> Q_EVENT_TRAN,
            Call ptr_sink (reserved_ev Q_EXIT_SIG) Q_EVENT_HANDLED,
            Call ptr_mid (reserved_ev Q_ENTRY_SIG) Q_EVENT_TRAN]) \<and>
   length [Call ptr_sink \<lparr>sig = Q_GO_SIG\<rparr> Q_EVENT_TRAN,
           Call ptr_sink (reserved_ev Q_EXIT_SIG) Q_EVENT_HANDLED,
           Call ptr_mid (reserved_ev Q_ENTRY_SIG) Q_EVENT_TRAN] \<le> length ([] :: Probe_handler call list) + 3"
proof -
  have run: "dispatch Probe_handlers \<lparr>sig = Q_GO_SIG\<rparr>
      (\<lparr>m_state = Some ptr_sink, derived = ()\<rparr>, []) =
     Some (\<lparr>m_state = Some ptr_spin, derived = ()\<rparr>,
           [Call ptr_sink \<lparr>sig = Q_GO_SIG\<rparr> Q_EVENT_TRAN,
            Call ptr_sink (reserved_ev Q_EXIT_SIG) Q_EVENT_HANDLED,
            Call ptr_mid (reserved_ev Q_ENTRY_SIG) Q_EVENT_TRAN])"
    by (simp add: dispatch_def invoke_def Probe_defs macro_defs result_defs signal_defs
        reserved_ev_num)
  from dispatch_call_bound [OF run] have
    "length [Call ptr_sink \<lparr>sig = Q_GO_SIG\<rparr> Q_EVENT_TRAN,
             Call ptr_sink (reserved_ev Q_EXIT_SIG) Q_EVENT_HANDLED,
             Call ptr_mid (reserved_ev Q_ENTRY_SIG) Q_EVENT_TRAN]
       \<le> length ([] :: Probe_handler call list) + 3"
    by (rule conjunct1)
  with run show ?thesis by (rule conjI)
qed

text \<open>
  The last part of the claim as written, that the handler recorded during \<open>EXIT\<close>
  processing never receives its own \<open>ENTRY\<close> in that call, fails: \<open>hop\<close> records \<open>sink\<close>
  while it processes \<open>EXIT\<close>, and the last call of the same \<open>dispatch\<close> is \<open>ENTRY\<close> to
  \<open>sink\<close>.
\<close>

theorem recorded_during_exit_counterexample:
  "hop (reserved_ev Q_EXIT_SIG) \<lparr>m_state = Some ptr_mid, derived = ()\<rparr> =
     Q_TRAN (Some ptr_sink) \<lparr>m_state = Some ptr_mid, derived = ()\<rparr> \<and>
   map_option (\<lambda>w. (m_state (fst w), map target (snd w), map ev (snd w)))
     (dispatch Probe_handlers \<lparr>sig = Q_GO_SIG\<rparr> (\<lparr>m_state = Some ptr_hop, derived = ()\<rparr>, [])) =
     Some (Some ptr_sink, [ptr_hop, ptr_hop, ptr_sink],
           [\<lparr>sig = Q_GO_SIG\<rparr>, reserved_ev Q_EXIT_SIG, reserved_ev Q_ENTRY_SIG])"
  by (simp add: Probe_hop_go hop_def macro_defs result_defs signal_defs reserved_ev_num)

section \<open>Runs without transitions\<close>

text \<open>
  Claim C5. Let the machine be running with active handler \<open>A\<close>, and let a finite sequence
  of events be dispatched in which the handler answers every event with "handled" or
  "ignored" and never requests a transition. Then every dispatch returns, the active
  handler after the sequence is \<open>A\<close> as before, and the calls made are exactly one per
  event, to \<open>A\<close> with that event, each returning "handled" or "ignored": no \<open>EXIT\<close> and
  no \<open>ENTRY\<close> is delivered anywhere in the sequence.
\<close>

theorem no_transition_run:
  assumes "m_state m = Some a" and "no_transition_requested F es m"
  shows "\<exists>m' rs. dispatch_all F es (m, cs) = Some (m', cs @ map2 (Call a) es rs) \<and>
           length rs = length es \<and>
           (\<forall>r\<in>set rs. r = Q_EVENT_HANDLED \<or> r = Q_EVENT_IGNORED) \<and>
           m_state m' = Some a"
  using assms
proof (induction es arbitrary: m cs)
  case Nil
  then show ?case by simp
next
  case (Cons e es)
  obtain r m1 where h: "F a e m = (r, m1)" by (cases "F a e m")
  with Cons.prems have r: "r = Q_EVENT_HANDLED \<or> r = Q_EVENT_IGNORED"
    and m1: "m_state m1 = Some a" and rest: "no_transition_requested F es m1"
    by simp_all
  from r have "r \<noteq> Q_EVENT_TRAN" by (auto simp: result_defs)
  with Cons.prems(1) h have d: "dispatch F e (m, cs) = Some (m1, cs @ [Call a e r])"
    by (rule dispatch_no_tran)
  from Cons.IH [OF m1 rest, of "cs @ [Call a e r]"] obtain m' rs where
    ih: "dispatch_all F es (m1, cs @ [Call a e r]) =
           Some (m', (cs @ [Call a e r]) @ map2 (Call a) es rs)"
      "length rs = length es" "\<forall>r\<in>set rs. r = Q_EVENT_HANDLED \<or> r = Q_EVENT_IGNORED"
      "m_state m' = Some a"
    by blast
  have "dispatch_all F (e # es) (m, cs) = Some (m', cs @ map2 (Call a) (e # es) (r # rs))"
    using d ih(1) by simp
  moreover have "length (r # rs) = length (e # es)" using ih(2) by simp
  moreover have "\<forall>x\<in>set (r # rs). x = Q_EVENT_HANDLED \<or> x = Q_EVENT_IGNORED"
    using r ih(3) by simp
  ultimately show ?case using ih(4) by blast
qed

text \<open>An instance: \<open>spin\<close> ignores \<open>NOP\<close> and handles signal 9.\<close>

theorem no_transition_run_witness:
  "no_transition_requested Probe_handlers [\<lparr>sig = Q_NOP_SIG\<rparr>, \<lparr>sig = 9\<rparr>]
     \<lparr>m_state = Some ptr_spin, derived = ()\<rparr> \<and>
   (\<exists>m' rs. dispatch_all Probe_handlers [\<lparr>sig = Q_NOP_SIG\<rparr>, \<lparr>sig = 9\<rparr>]
               (\<lparr>m_state = Some ptr_spin, derived = ()\<rparr>, []) =
               Some (m', [] @ map2 (Call ptr_spin) [\<lparr>sig = Q_NOP_SIG\<rparr>, \<lparr>sig = 9\<rparr>] rs) \<and>
             length rs = length [\<lparr>sig = Q_NOP_SIG\<rparr>, \<lparr>sig = 9\<rparr>] \<and>
             (\<forall>r\<in>set rs. r = Q_EVENT_HANDLED \<or> r = Q_EVENT_IGNORED) \<and>
             m_state m' = Some ptr_spin)"
proof -
  let ?m = "\<lparr>m_state = Some ptr_spin, derived = ()\<rparr> :: Probe"
  have h1: "m_state ?m = Some ptr_spin" by simp
  have h2: "no_transition_requested Probe_handlers [\<lparr>sig = Q_NOP_SIG\<rparr>, \<lparr>sig = 9\<rparr>] ?m"
    by (simp add: spin_def macro_defs result_defs signal_defs)
  from h2 no_transition_run [OF h1 h2, of "[]"] show ?thesis by (rule conjI)
qed

text \<open>
  Claim C8. Let the machine be running with active handler \<open>A\<close> and let \<open>e\<close> be an event
  that \<open>A\<close> reports as ignored. Then, for every \<open>N\<close>, dispatching \<open>e\<close> \<open>N\<close> times
  returns, makes exactly \<open>N\<close> calls of \<open>A\<close> with \<open>e\<close>, each with the outcome "ignored",
  and leaves \<open>A\<close> the active handler. As \<open>N\<close> is arbitrary, this holds after each of the
  dispatches.
\<close>

theorem ignored_event_repeated:
  assumes "m_state m = Some a" and "reports_ignored F a e"
  shows "\<exists>m'. dispatch_all F (replicate n e) (m, cs) =
                 Some (m', cs @ replicate n (Call a e Q_EVENT_IGNORED)) \<and>
               m_state m' = Some a"
  using assms(1)
proof (induction n arbitrary: m cs)
  case 0
  then show ?case by simp
next
  case (Suc n)
  obtain r m1 where h: "F a e m = (r, m1)" by (cases "F a e m")
  with assms(2) have r: "r = Q_EVENT_IGNORED" and "m_state m1 = m_state m"
    by (auto simp: reports_ignored_def dest: spec [of _ m])
  with Suc.prems have m1: "m_state m1 = Some a" by simp
  from r have "r \<noteq> Q_EVENT_TRAN" by (simp add: result_defs)
  with Suc.prems h have d: "dispatch F e (m, cs) = Some (m1, cs @ [Call a e r])"
    by (rule dispatch_no_tran)
  from Suc.IH [OF m1, of "cs @ [Call a e r]"] obtain m' where
    "dispatch_all F (replicate n e) (m1, cs @ [Call a e r]) =
       Some (m', (cs @ [Call a e r]) @ replicate n (Call a e Q_EVENT_IGNORED))"
    "m_state m' = Some a"
    by blast
  with d r show ?case by (simp add: replicate_app_Cons_same)
qed

text \<open>An instance: \<open>spin\<close> reports \<open>NOP\<close> as ignored; three dispatches.\<close>

theorem ignored_event_repeated_witness:
  "reports_ignored Probe_handlers ptr_spin \<lparr>sig = Q_NOP_SIG\<rparr> \<and>
   (\<exists>m'. dispatch_all Probe_handlers (replicate 3 \<lparr>sig = Q_NOP_SIG\<rparr>)
            (\<lparr>m_state = Some ptr_spin, derived = ()\<rparr>, []) =
            Some (m', [] @ replicate 3 (Call ptr_spin \<lparr>sig = Q_NOP_SIG\<rparr> Q_EVENT_IGNORED)) \<and>
          m_state m' = Some ptr_spin)"
proof -
  let ?m = "\<lparr>m_state = Some ptr_spin, derived = ()\<rparr> :: Probe"
  have h1: "m_state ?m = Some ptr_spin" by simp
  have h2: "reports_ignored Probe_handlers ptr_spin \<lparr>sig = Q_NOP_SIG\<rparr>"
    by (simp add: reports_ignored_def spin_def macro_defs signal_defs)
  from h2 ignored_event_repeated [OF h1 h2, of 3 "[]"] show ?thesis by (rule conjI)
qed

section \<open>The run of \<open>main\<close>\<close>

text \<open>
  Claim C7, amended. In the example machine \<open>A\<close> goes to \<open>B\<close> on \<open>TIMEOUT\<close> and \<open>B\<close> to
  \<open>A\<close>. After \<open>init(A)\<close> and ten dispatches of \<open>TIMEOUT\<close>, the active handler after each
  successive dispatch is \<open>B,A,B,A,B,A,B,A,B,A\<close>, ending with \<open>A\<close> active; the sequence
  \<open>A,B,A,B,A,B,A,B,A,B\<close> is that of the handlers which receive the ten \<open>TIMEOUT\<close> events.
  The calls are the pair \<open>INIT\<close>, \<open>ENTRY\<close> on \<open>A\<close> from \<open>init\<close>, followed by ten groups of
  \<open>TIMEOUT\<close>, \<open>EXIT\<close>, \<open>ENTRY\<close>: exactly 10 \<open>TIMEOUT\<close> deliveries, 10 \<open>EXIT\<close> calls, and 10
  \<open>ENTRY\<close> calls beside the initial one.
\<close>

theorem main_run:
  "main_active_sequence =
     Some [Some ptr_state_b, Some ptr_state_a, Some ptr_state_b, Some ptr_state_a,
           Some ptr_state_b, Some ptr_state_a, Some ptr_state_b, Some ptr_state_a,
           Some ptr_state_b, Some ptr_state_a] \<and>
   map_option (\<lambda>w. m_state (fst w)) main = Some (Some ptr_state_a) \<and>
   map_option snd main =
     Some ([Call ptr_state_a (reserved_ev Q_INIT_SIG) Q_EVENT_HANDLED,
            Call ptr_state_a (reserved_ev Q_ENTRY_SIG) Q_EVENT_HANDLED] @
           concat (replicate 5
             [Call ptr_state_a (my_event ! 0) Q_EVENT_TRAN,
              Call ptr_state_a (reserved_ev Q_EXIT_SIG) Q_EVENT_HANDLED,
              Call ptr_state_b (reserved_ev Q_ENTRY_SIG) Q_EVENT_HANDLED,
              Call ptr_state_b (my_event ! 0) Q_EVENT_TRAN,
              Call ptr_state_b (reserved_ev Q_EXIT_SIG) Q_EVENT_HANDLED,
              Call ptr_state_a (reserved_ev Q_ENTRY_SIG) Q_EVENT_HANDLED])) \<and>
   map_option (\<lambda>w. map target (calls_with Q_TIMEOUT_SIG (snd w))) main =
     Some [ptr_state_a, ptr_state_b, ptr_state_a, ptr_state_b, ptr_state_a,
           ptr_state_b, ptr_state_a, ptr_state_b, ptr_state_a, ptr_state_b] \<and>
   map_option (\<lambda>w. length (calls_with Q_EXIT_SIG (snd w))) main = Some 10 \<and>
   map_option (\<lambda>w. length (calls_with Q_ENTRY_SIG (snd w))) main = Some (1 + 10) \<and>
   map_option (\<lambda>w. length (calls_with Q_INIT_SIG (snd w))) main = Some 1"
  by (simp add: main_active_sequence_value main_value replicate_5 calls_with_def
      my_event_0 reserved_ev_num result_defs signal_defs)

text \<open>
  As the claim is written it fails: the active handlers after the successive dispatches
  are not \<open>A,B,A,B,A,B,A,B,A,B\<close>, and the run does not end with \<open>B\<close> active.
\<close>

theorem main_active_sequence_counterexample:
  "main_active_sequence \<noteq>
     Some [Some ptr_state_a, Some ptr_state_b, Some ptr_state_a, Some ptr_state_b,
           Some ptr_state_a, Some ptr_state_b, Some ptr_state_a, Some ptr_state_b,
           Some ptr_state_a, Some ptr_state_b] \<and>
   map_option (\<lambda>w. m_state (fst w)) main \<noteq> Some (Some ptr_state_b)"
  by (simp add: main_active_sequence_value main_value)


end
